theory Spec2Isabelle
  imports Complex_Main
begin

section \<open>Strings and numbers of the host language\<close>

text \<open>
  Addresses, cache keys and amounts are JavaScript strings. They are modelled as
  \<open>string\<close>, a character being a code unit below 256 (the strings the exchange
  handles, hexadecimal addresses, decimal amounts and cache keys, are ASCII).
  On these code units \<open>toLowerCase\<close> maps the letters A-Z to a-z and the
  upper-case letters of the range 192-222 (all of it but the multiplication sign, 215)
  to the lower-case letters 32 above them, and leaves every other character as it is.
\<close>

type_synonym Address = string
type_synonym NumberAsString = string

definition char_toLowerCase :: "char \<Rightarrow> char" where
  "char_toLowerCase c =
     (let n = (of_char c :: int) in
      if (65 \<le> n \<and> n \<le> 90) \<or> (192 \<le> n \<and> n \<le> 222 \<and> n \<noteq> 215)
      then char_of (n + 32) else c)"

definition toLowerCase :: "string \<Rightarrow> string" where
  "toLowerCase s = map char_toLowerCase s"

text \<open>
  \<open>String(n)\<close> and \<open>n.toString()\<close> of an integer (a BigInt, an ethers BigNumber, or a
  Number that is an integer below \<open>10^21\<close> in magnitude): the decimal digits, with a
  leading minus sign for a negative value.
\<close>

definition digit_char :: "int \<Rightarrow> char" where
  "digit_char d = char_of (48 + d)"

function decimal :: "int \<Rightarrow> string" where
  "decimal n =
     (if n < 10 then [digit_char n] else decimal (n div 10) @ [digit_char (n mod 10)])"
  by pat_completeness auto
termination
  by (relation "measure nat") auto

declare decimal.simps [simp del]

definition int_toString :: "int \<Rightarrow> string" where
  "int_toString i = (if i < 0 then CHR ''-'' # decimal (- i) else decimal i)"

text \<open>
  \<open>BigInt(s)\<close> of a string follows the StringToBigInt grammar of the language:
  white space is trimmed at both ends, the empty string is zero, and what remains is
  either an optionally signed run of decimal digits or an unsigned literal with one of
  the prefixes \<open>0x\<close>, \<open>0o\<close>, \<open>0b\<close> (either case). Anything else raises a
  SyntaxError, which is the value \<open>None\<close> here. The white space and line
  terminators of the language below 256 are the control characters 9 to 13, the space
  32 and the no-break space 160.
\<close>

definition isStrWhiteSpaceChar :: "char \<Rightarrow> bool" where
  "isStrWhiteSpaceChar c =
     (let n = (of_char c :: int) in (9 \<le> n \<and> n \<le> 13) \<or> n = 32 \<or> n = 160)"

definition trimString :: "string \<Rightarrow> string" where
  "trimString s = rev (dropWhile isStrWhiteSpaceChar (rev (dropWhile isStrWhiteSpaceChar s)))"

definition digit_of_char :: "char \<Rightarrow> int option" where
  "digit_of_char c =
     (let n = (of_char c :: int) in
      if 48 \<le> n \<and> n \<le> 57 then Some (n - 48)
      else if 97 \<le> n \<and> n \<le> 102 then Some (n - 87)
      else if 65 \<le> n \<and> n \<le> 70 then Some (n - 55)
      else None)"

fun digits_value :: "int \<Rightarrow> int \<Rightarrow> string \<Rightarrow> int option" where
  "digits_value b acc [] = Some acc"
| "digits_value b acc (c # cs) =
     (case digit_of_char c of
        None \<Rightarrow> None
      | Some d \<Rightarrow> if d < b then digits_value b (acc * b + d) cs else None)"

definition parse_digits :: "int \<Rightarrow> string \<Rightarrow> int option" where
  "parse_digits b s = (if s = [] then None else digits_value b 0 s)"

definition StrIntegerLiteral :: "string \<Rightarrow> int option" where
  "StrIntegerLiteral s =
     (case s of
        c1 # c2 # rest \<Rightarrow>
          if c1 = CHR ''0'' \<and> (c2 = CHR ''x'' \<or> c2 = CHR ''X'') then parse_digits 16 rest
          else if c1 = CHR ''0'' \<and> (c2 = CHR ''o'' \<or> c2 = CHR ''O'') then parse_digits 8 rest
          else if c1 = CHR ''0'' \<and> (c2 = CHR ''b'' \<or> c2 = CHR ''B'') then parse_digits 2 rest
          else if c1 = CHR ''-'' then map_option uminus (parse_digits 10 (c2 # rest))
          else if c1 = CHR ''+'' then parse_digits 10 (c2 # rest)
          else parse_digits 10 s
      | _ \<Rightarrow> parse_digits 10 s)"

definition BigInt :: "string \<Rightarrow> int option" where
  "BigInt s = (let t = trimString s in if t = [] then Some 0 else StrIntegerLiteral t)"

definition isDecimalDigit :: "char \<Rightarrow> bool" where
  "isDecimalDigit c = (48 \<le> (of_char c :: int) \<and> (of_char c :: int) \<le> 57)"


section \<open>The outside world: constants, contract interfaces, cache and chain\<close>

text \<open>
  The module \<open>../constants\<close> is not part of the sources at hand; the three constants
  the exchange imports from it are parameters of the model.
\<close>

record constants =
  CACHE_PREFIX :: string
  ETHER_ADDRESS :: Address
  MAX_UINT :: string

text \<open>
  Modelled from the spec: \<open>isETHAddress\<close> of \<open>../utils\<close> is not part of the sources
  at hand. The specification says that it tells whether a token is the chain's native
  asset, and the native-asset test written out in \<open>hasAugustusAllowance\<close> compares
  the lower-cased address to the lower-cased native-asset address; the helper does the
  same.
\<close>

definition isETHAddress :: "constants \<Rightarrow> Address \<Rightarrow> bool" where
  "isETHAddress k address = (toLowerCase address = toLowerCase (ETHER_ADDRESS k))"

text \<open>
  An ethers \<open>Interface\<close> built from an ABI: \<open>encodeFunctionData name args\<close> gives the
  call payload and throws on arguments that do not fit the ABI (\<open>None\<close>);
  \<open>decodeFunctionResult name raw\<close> gives the decoded unsigned integer of a call
  with one \<open>uint256\<close> output and throws on bytes that do not decode (\<open>None\<close>).
  The ABI files are not part of the sources at hand, so the interfaces are parameters.
\<close>

record Interface =
  encodeFunctionData :: "string \<Rightarrow> string list \<Rightarrow> string option"
  decodeFunctionResult :: "string \<Rightarrow> string \<Rightarrow> nat option"

text \<open>
  The exchange performs three kinds of I/O: set membership and set insertion on the
  cache, and a read-only contract call on the chain. The world holds the sets of the cache,
  the chain as the answer (or failure, \<open>None\<close>) it gives to each read-only call, and the
  log of every I/O operation performed so far, in order. The cache is the set store of
  the \<open>ICache\<close> contract; its two operations always complete.
\<close>

datatype io_event =
    is_CacheSIsMember: CacheSIsMember string string
  | is_EthCall: EthCall Address string
  | is_CacheSAdd: CacheSAdd string string

definition eth_reads :: "io_event list \<Rightarrow> nat" where
  "eth_reads evs = length (filter is_EthCall evs)"

definition cache_writes :: "io_event list \<Rightarrow> nat" where
  "cache_writes evs = length (filter is_CacheSAdd evs)"

record world =
  cache :: "string \<Rightarrow> string set"
  eth :: "Address \<Rightarrow> string \<Rightarrow> string option"
  io_log :: "io_event list"

definition cache_sismember :: "string \<Rightarrow> string \<Rightarrow> world \<Rightarrow> bool \<times> world" where
  "cache_sismember setKey key w =
     (key \<in> cache w setKey, w\<lparr>io_log := io_log w @ [CacheSIsMember setKey key]\<rparr>)"

definition cache_sadd :: "string \<Rightarrow> string \<Rightarrow> world \<Rightarrow> world" where
  "cache_sadd setKey key w =
     w\<lparr>cache := (cache w)(setKey := insert key (cache w setKey)),
       io_log := io_log w @ [CacheSAdd setKey key]\<rparr>"

definition eth_call :: "Address \<Rightarrow> string \<Rightarrow> world \<Rightarrow> string option \<times> world" where
  "eth_call to data w = (eth w to data, w\<lparr>io_log := io_log w @ [EthCall to data]\<rparr>)"

datatype error = SyntaxError | EncodeError | CallError | DecodeError

section \<open>The deadline placeholder\<close>

text \<open>
  \<open>new Date().getTime()\<close> is the clock reading, an integer number of milliseconds
  since the epoch; it is the argument of the model. A time value is below \<open>2^53\<close> in
  magnitude, where the floating-point quotient by 1000 never rounds up to the next
  integer, so \<open>Math.floor\<close> of it is the integer quotient.
\<close>

definition FRIENDLY_LOCAL_DEADLINE :: int where
  "FRIENDLY_LOCAL_DEADLINE = 7 * 24 * 60 * 60"

definition getLocalDeadlineAsFriendlyPlaceholder :: "int \<Rightarrow> string" where
  "getLocalDeadlineAsFriendlyPlaceholder getTime =
     int_toString (getTime div 1000 + FRIENDLY_LOCAL_DEADLINE)"

section \<open>The exchange\<close>

record PreCalls =
  callees :: "Address list"
  calldata :: "string list"
  "values" :: "string list"

record SimpleExchangeParam = PreCalls +
  networkFee :: NumberAsString

record IDexHelper =
  config_network :: int
  config_augustusAddress :: Address

record SimpleExchange =
  simpleSwapHelper :: Interface
  erc20Interface :: Interface
  needWrapNative :: bool
  isFeeOnTransferSupported :: bool
  augustusAddress :: Address
  network :: int
  dexKey :: string
  dexmapKey :: string
  cacheStateKey :: string
  cacheApprovesKey :: string

definition SimpleExchange_new ::
  "constants \<Rightarrow> Interface \<Rightarrow> Interface \<Rightarrow> IDexHelper \<Rightarrow> string \<Rightarrow> SimpleExchange" where
  "SimpleExchange_new k SimpleSwapHelperABI ERC20ABI dexHelper dexKey' =
     \<lparr>simpleSwapHelper = SimpleSwapHelperABI,
      erc20Interface = ERC20ABI,
      needWrapNative = False,
      isFeeOnTransferSupported = False,
      augustusAddress = config_augustusAddress dexHelper,
      network = config_network dexHelper,
      dexKey = dexKey',
      dexmapKey =
        toLowerCase (CACHE_PREFIX k @ ''_'' @ int_toString (config_network dexHelper) @ ''_''
                     @ dexKey' @ ''_poolconfigs''),
      cacheStateKey =
        toLowerCase (CACHE_PREFIX k @ ''_'' @ int_toString (config_network dexHelper) @ ''_''
                     @ dexKey' @ ''_states''),
      cacheApprovesKey =
        toLowerCase (CACHE_PREFIX k @ ''_'' @ int_toString (config_network dexHelper)
                     @ ''_approves'')\<rparr>"

definition getAllowance ::
  "SimpleExchange \<Rightarrow> Address \<Rightarrow> Address \<Rightarrow> Address \<Rightarrow> world \<Rightarrow> (error + string) \<times> world" where
  "getAllowance this spender token target w =
     (case encodeFunctionData (erc20Interface this) ''allowance'' [spender, target] of
        None \<Rightarrow> (Inl EncodeError, w)
      | Some allowanceData \<Rightarrow>
          (case eth_call token allowanceData w of
             (None, w1) \<Rightarrow> (Inl CallError, w1)
           | (Some allowanceRaw, w1) \<Rightarrow>
               (case decodeFunctionResult (erc20Interface this) ''allowance'' allowanceRaw of
                  None \<Rightarrow> (Inl DecodeError, w1)
                | Some allowance \<Rightarrow> (Inr (int_toString (int allowance)), w1))))"

definition hasAugustusAllowance ::
  "constants \<Rightarrow> SimpleExchange \<Rightarrow> Address \<Rightarrow> Address \<Rightarrow> string \<Rightarrow> world \<Rightarrow> (error + bool) \<times> world" where
  "hasAugustusAllowance k this token target amount w =
     (if toLowerCase token = toLowerCase (ETHER_ADDRESS k) then (Inr True, w)
      else
        let cacheKey = token @ ''_'' @ target in
        (case cache_sismember (cacheApprovesKey this) cacheKey w of
           (True, w1) \<Rightarrow> (Inr True, w1)
         | (False, w1) \<Rightarrow>
             (case getAllowance this (augustusAddress this) token target w1 of
                (Inl e, w2) \<Rightarrow> (Inl e, w2)
              | (Inr allowance, w2) \<Rightarrow>
                  (case BigInt allowance of
                     None \<Rightarrow> (Inl SyntaxError, w2)
                   | Some a \<Rightarrow>
                       (case BigInt amount of
                          None \<Rightarrow> (Inl SyntaxError, w2)
                        | Some b \<Rightarrow>
                            let isApproved = (a \<ge> b) in
                            if isApproved
                            then (Inr isApproved, cache_sadd (cacheApprovesKey this) cacheKey w2)
                            else (Inr isApproved, w2))))))"

definition getApproveSimpleParam ::
  "constants \<Rightarrow> SimpleExchange \<Rightarrow> Address \<Rightarrow> Address \<Rightarrow> string \<Rightarrow> world
     \<Rightarrow> (error + SimpleExchangeParam) \<times> world" where
  "getApproveSimpleParam k this token target amount w =
     (case hasAugustusAllowance k this token target amount w of
        (Inl e, w1) \<Rightarrow> (Inl e, w1)
      | (Inr hasAllowance, w1) \<Rightarrow>
          if hasAllowance
          then (Inr \<lparr>callees = [], calldata = [], values = [], networkFee = ''0''\<rparr>, w1)
          else
            (case encodeFunctionData (simpleSwapHelper this) ''approve'' [token, target, MAX_UINT k] of
               None \<Rightarrow> (Inl EncodeError, w1)
             | Some approveCalldata \<Rightarrow>
                 (Inr \<lparr>callees = [augustusAddress this], calldata = [approveCalldata],
                       values = [''0''], networkFee = ''0''\<rparr>, w1)))"

text \<open>
  The optional arguments of the builder are options: an absent \<open>spender\<close> or an empty
  one gives way to the swap callee (\<open>spender || swapCallee\<close>), an absent
  \<open>networkFee\<close> is \<open>'0'\<close>, and absent pre-calls contribute nothing.
\<close>

definition spender_or :: "Address option \<Rightarrow> Address \<Rightarrow> Address" where
  "spender_or spender swapCallee =
     (case spender of None \<Rightarrow> swapCallee | Some s \<Rightarrow> if s = [] then swapCallee else s)"

definition networkFee_or_default :: "NumberAsString option \<Rightarrow> NumberAsString" where
  "networkFee_or_default networkFee' = (case networkFee' of None \<Rightarrow> ''0'' | Some f \<Rightarrow> f)"

definition preCalls_callees :: "PreCalls option \<Rightarrow> Address list" where
  "preCalls_callees preCalls = (case preCalls of None \<Rightarrow> [] | Some p \<Rightarrow> callees p)"

definition preCalls_calldata :: "PreCalls option \<Rightarrow> string list" where
  "preCalls_calldata preCalls = (case preCalls of None \<Rightarrow> [] | Some p \<Rightarrow> calldata p)"

definition preCalls_values :: "PreCalls option \<Rightarrow> string list" where
  "preCalls_values preCalls = (case preCalls of None \<Rightarrow> [] | Some p \<Rightarrow> values p)"

definition buildSimpleParamWithoutWETHConversion ::
  "constants \<Rightarrow> SimpleExchange \<Rightarrow> Address \<Rightarrow> NumberAsString \<Rightarrow> Address \<Rightarrow> NumberAsString
     \<Rightarrow> string \<Rightarrow> Address \<Rightarrow> Address option \<Rightarrow> NumberAsString option \<Rightarrow> PreCalls option
     \<Rightarrow> world \<Rightarrow> (error + SimpleExchangeParam) \<times> world" where
  "buildSimpleParamWithoutWETHConversion k this src srcAmount dest destAmount swapCallData
       swapCallee spender networkFee' preCalls w =
     (let fee = networkFee_or_default networkFee' in
      case getApproveSimpleParam k this src (spender_or spender swapCallee) srcAmount w of
        (Inl e, w1) \<Rightarrow> (Inl e, w1)
      | (Inr approveParam, w1) \<Rightarrow>
          (case BigInt fee of
             None \<Rightarrow> (Inl SyntaxError, w1)
           | Some f \<Rightarrow>
               (case (if isETHAddress k src then BigInt srcAmount else Some 0) of
                  None \<Rightarrow> (Inl SyntaxError, w1)
                | Some a \<Rightarrow>
                    let swapValue = int_toString (f + a) in
                    (Inr \<lparr>callees = preCalls_callees preCalls @ callees approveParam @ [swapCallee],
                          calldata = preCalls_calldata preCalls @ calldata approveParam @ [swapCallData],
                          values = preCalls_values preCalls @ values approveParam @ [swapValue],
                          networkFee = fee\<rparr>, w1))))"

text \<open>
  The cache operations of a log, each as its set key and its element key, in order.
\<close>

fun cache_keys :: "io_event list \<Rightarrow> (string \<times> string) list" where
  "cache_keys [] = []"
| "cache_keys (CacheSIsMember s e # evs) = (s, e) # cache_keys evs"
| "cache_keys (CacheSAdd s e # evs) = (s, e) # cache_keys evs"
| "cache_keys (EthCall t d # evs) = cache_keys evs"

text \<open>
  The cache keys as the specification words them, to be compared with the keys the
  exchange uses: the set key holds the integration identity, and both addresses of the
  element key are lower-cased.
\<close>

definition spec_cacheApprovesKey :: "string \<Rightarrow> int \<Rightarrow> string \<Rightarrow> string" where
  "spec_cacheApprovesKey prefix networkId integrationId =
     toLowerCase (prefix @ ''_'' @ int_toString networkId @ ''_'' @ integrationId @ ''_approves'')"

definition spec_approvalKey :: "Address \<Rightarrow> Address \<Rightarrow> string" where
  "spec_approvalKey tokenAddress spenderAddress =
     toLowerCase tokenAddress @ ''_'' @ toLowerCase spenderAddress"

section \<open>A concrete exchange\<close>

text \<open>
  An exchange on network 1 for the integration \<open>UniswapV2\<close>, with toy interfaces
  that write a call as its name followed by its arguments and decode a result from its
  decimal digits, over an empty cache and a chain on which the router's allowance over
  the token \<open>0xTokenA\<close> reads 50.
\<close>

definition example_constants :: constants where
  "example_constants =
     \<lparr>CACHE_PREFIX = ''dl'',
      ETHER_ADDRESS = ''0xEeeeeEeeeEeEeeEeEeEeeEEEeeeeEeeeeeeeEEeE'',
      MAX_UINT = ''115792089237316195423570985008687907853269984665640564039457584007913129639935''\<rparr>"

definition example_interface :: Interface where
  "example_interface =
     \<lparr>encodeFunctionData = (\<lambda>name args. Some (name @ concat (map (\<lambda>a. CHR '':'' # a) args))),
      decodeFunctionResult =
        (\<lambda>name raw. case BigInt raw of
                       None \<Rightarrow> None
                     | Some i \<Rightarrow> if 0 \<le> i then Some (nat i) else None)\<rparr>"

definition example_dexHelper :: IDexHelper where
  "example_dexHelper = \<lparr>config_network = 1, config_augustusAddress = ''0xAugustus''\<rparr>"

definition example_exchange :: SimpleExchange where
  "example_exchange =
     SimpleExchange_new example_constants example_interface example_interface
       example_dexHelper ''UniswapV2''"

definition example_world :: world where
  "example_world =
     \<lparr>cache = (\<lambda>_. {}),
      eth = (\<lambda>to data. if to = ''0xTokenA'' then Some ''50'' else None),
      io_log = []\<rparr>"

text \<open>
  The world after a first call for the pair (\<open>0xTokenA\<close>, \<open>0xSpender\<close>) with the
  amount 10 has found the allowance sufficient.
\<close>

definition example_world_cached :: world where
  "example_world_cached =
     example_world
       \<lparr>cache := (\<lambda>_. {})(''dl_1_approves'' := {''0xTokenA_0xSpender''}),
        io_log := [CacheSIsMember ''dl_1_approves'' ''0xTokenA_0xSpender'',
                   EthCall ''0xTokenA'' ''allowance:0xAugustus:0xSpender'',
                   CacheSAdd ''dl_1_approves'' ''0xTokenA_0xSpender'']\<rparr>"

text \<open>
  A swap of 100 of \<open>0xTokenA\<close> through \<open>0xRouter\<close> with the spender
  \<open>0xSpender\<close>, a network fee of 5 and one pre-call finds the allowance of 50 too
  small: the world after it, its approval sub-sequence, and the sequence it builds.
\<close>

definition example_preCalls :: PreCalls where
  "example_preCalls = \<lparr>callees = [''0xPre''], calldata = [''predata''], values = [''0'']\<rparr>"

definition example_world_missed :: world where
  "example_world_missed =
     example_world
       \<lparr>io_log := [CacheSIsMember ''dl_1_approves'' ''0xTokenA_0xSpender'',
                   EthCall ''0xTokenA'' ''allowance:0xAugustus:0xSpender'']\<rparr>"

definition example_approve_payload :: string where
  "example_approve_payload =
     ''approve:0xTokenA:0xSpender:115792089237316195423570985008687907853269984665640564039457584007913129639935''"

definition example_approveParam :: SimpleExchangeParam where
  "example_approveParam =
     \<lparr>callees = [''0xAugustus''], calldata = [example_approve_payload], values = [''0''],
      networkFee = ''0''\<rparr>"


section \<open>Printing an integer and reading it back\<close>

text \<open>
  The decimal string of an integer holds decimal digits only, after an optional minus
  sign, and \<open>BigInt\<close> reads it back to the same integer. The allowance that
  \<open>getAllowance\<close> returns as a string is read this way by \<open>hasAugustusAllowance\<close>.
\<close>

lemma of_char_digit_char: "0 \<le> d \<Longrightarrow> d < 10 \<Longrightarrow> (of_char (digit_char d) :: int) = 48 + d"
  by (simp add: digit_char_def)

lemma digit_of_digit_char: "0 \<le> d \<Longrightarrow> d < 10 \<Longrightarrow> digit_of_char (digit_char d) = Some d"
  by (simp add: digit_of_char_def of_char_digit_char)

lemma isDecimalDigit_digit_char: "0 \<le> d \<Longrightarrow> d < 10 \<Longrightarrow> isDecimalDigit (digit_char d)"
  by (simp add: isDecimalDigit_def of_char_digit_char)

lemma decimal_digits: "0 \<le> n \<Longrightarrow> \<forall>c \<in> set (decimal n). isDecimalDigit c"
proof (induction n rule: decimal.induct)
  case (1 n)
  show ?case
  proof (cases "n < 10")
    case True
    with 1 show ?thesis by (simp add: decimal.simps [of n] isDecimalDigit_digit_char)
  next
    case False
    with 1 show ?thesis by (simp add: decimal.simps [of n] isDecimalDigit_digit_char)
  qed
qed

lemma decimal_nonempty: "decimal n \<noteq> []"
  by (subst decimal.simps) simp

lemma digits_value_snoc:
  "digits_value b acc (cs @ [c]) =
     (case digits_value b acc cs of None \<Rightarrow> None
      | Some v \<Rightarrow> (case digit_of_char c of None \<Rightarrow> None
                    | Some d \<Rightarrow> if d < b then Some (v * b + d) else None))"
  by (induction cs arbitrary: acc) (auto split: option.splits)

lemma digits_value_decimal: "0 \<le> n \<Longrightarrow> digits_value 10 0 (decimal n) = Some n"
proof (induction n rule: decimal.induct)
  case (1 n)
  show ?case
  proof (cases "n < 10")
    case True
    with 1 show ?thesis by (simp add: decimal.simps [of n] digit_of_digit_char)
  next
    case False
    with 1 have "digits_value 10 0 (decimal (n div 10)) = Some (n div 10)" by simp
    then show ?thesis using False
      by (simp add: decimal.simps [of n] digits_value_snoc digit_of_digit_char)
  qed
qed

lemma isDecimalDigit_not_ws: "isDecimalDigit c \<Longrightarrow> \<not> isStrWhiteSpaceChar c"
  by (auto simp: isDecimalDigit_def isStrWhiteSpaceChar_def Let_def)

lemma trimString_ends:
  assumes "s \<noteq> []" "\<not> isStrWhiteSpaceChar (hd s)" "\<not> isStrWhiteSpaceChar (last s)"
  shows "trimString s = s"
proof -
  from assms have "dropWhile isStrWhiteSpaceChar s = s"
    by (simp add: dropWhile_eq_self_iff)
  moreover from assms have "dropWhile isStrWhiteSpaceChar (rev s) = rev s"
    by (simp add: dropWhile_eq_self_iff hd_rev)
  ultimately show ?thesis by (simp add: trimString_def)
qed

lemma isDecimalDigit_not_prefix:
  "isDecimalDigit c \<Longrightarrow> c \<notin> {CHR ''x'', CHR ''X'', CHR ''o'', CHR ''O'', CHR ''b'', CHR ''B'', CHR ''-'', CHR ''+''}"
  by (auto simp: isDecimalDigit_def)

lemma StrIntegerLiteral_digits:
  assumes "\<forall>c \<in> set s. isDecimalDigit c"
  shows "StrIntegerLiteral s = parse_digits 10 s"
proof (cases s)
  case Nil then show ?thesis by (simp add: StrIntegerLiteral_def)
next
  case (Cons c1 t)
  show ?thesis
  proof (cases t)
    case Nil with Cons show ?thesis by (simp add: StrIntegerLiteral_def)
  next
    case (Cons c2 rest)
    with \<open>s = c1 # t\<close> assms have "isDecimalDigit c1" "isDecimalDigit c2" by auto
    then have "c1 \<noteq> CHR ''-''" "c1 \<noteq> CHR ''+''" "c2 \<noteq> CHR ''x''" "c2 \<noteq> CHR ''X''"
       "c2 \<noteq> CHR ''o''" "c2 \<noteq> CHR ''O''" "c2 \<noteq> CHR ''b''" "c2 \<noteq> CHR ''B''"
      using isDecimalDigit_not_prefix by auto
    with Cons \<open>s = c1 # t\<close> show ?thesis by (simp add: StrIntegerLiteral_def)
  qed
qed

lemma StrIntegerLiteral_minus:
  assumes "t \<noteq> []"
  shows "StrIntegerLiteral (CHR ''-'' # t) = map_option uminus (parse_digits 10 t)"
  using assms by (cases t) (simp_all add: StrIntegerLiteral_def)

lemma BigInt_decimal: 
  assumes "0 \<le> n" shows "BigInt (decimal n) = Some n"
proof -
  let ?s = "decimal n"
  have d: "\<forall>c \<in> set ?s. isDecimalDigit c" using assms by (rule decimal_digits)
  have ne: "?s \<noteq> []" by (rule decimal_nonempty)
  from d ne have "\<not> isStrWhiteSpaceChar (hd ?s)" "\<not> isStrWhiteSpaceChar (last ?s)"
    using isDecimalDigit_not_ws by auto
  with ne have "trimString ?s = ?s" by (simp add: trimString_ends)
  with ne d assms show ?thesis
    by (simp add: BigInt_def StrIntegerLiteral_digits parse_digits_def digits_value_decimal)
qed

lemma BigInt_int_toString: "BigInt (int_toString i) = Some i"
proof (cases "i < 0")
  case False
  then show ?thesis by (simp add: int_toString_def BigInt_decimal)
next
  case True
  let ?s = "decimal (- i)"
  from True have d: "\<forall>c \<in> set ?s. isDecimalDigit c" by (intro decimal_digits) simp
  have ne: "?s \<noteq> []" by (rule decimal_nonempty)
  from d ne have "\<not> isStrWhiteSpaceChar (last ?s)"
    using isDecimalDigit_not_ws by auto
  moreover have "\<not> isStrWhiteSpaceChar (CHR ''-'')" by (simp add: isStrWhiteSpaceChar_def)
  ultimately have "trimString (CHR ''-'' # ?s) = CHR ''-'' # ?s"
    using ne by (simp add: trimString_ends)
  moreover from True have "digits_value 10 0 ?s = Some (- i)" by (intro digits_value_decimal) simp
  ultimately show ?thesis using True ne
    by (simp add: int_toString_def BigInt_def StrIntegerLiteral_minus parse_digits_def)
qed

section \<open>The allowance oracle, branch by branch\<close>

text \<open>
  What \<open>hasAugustusAllowance\<close> returns and what it does to the world on each of its
  paths: the native asset, a cache hit, and a cache miss followed by a chain read that
  succeeds.
\<close>

lemma hasAugustusAllowance_native:
  assumes "toLowerCase token = toLowerCase (ETHER_ADDRESS k)"
  shows "hasAugustusAllowance k this token spender amount w = (Inr True, w)"
  using assms by (simp add: hasAugustusAllowance_def)

lemma hasAugustusAllowance_hit:
  assumes "toLowerCase token \<noteq> toLowerCase (ETHER_ADDRESS k)"
    and "token @ ''_'' @ spender \<in> cache w (cacheApprovesKey this)"
  shows "hasAugustusAllowance k this token spender amount w =
           (Inr True, w\<lparr>io_log := io_log w @ [CacheSIsMember (cacheApprovesKey this) (token @ ''_'' @ spender)]\<rparr>)"
  using assms by (simp add: hasAugustusAllowance_def cache_sismember_def)

lemma getAllowance_ok:
  assumes "encodeFunctionData (erc20Interface this) ''allowance'' [owner, spender] = Some data"
    and "eth w token data = Some raw"
    and "decodeFunctionResult (erc20Interface this) ''allowance'' raw = Some allowance"
  shows "getAllowance this owner token spender w =
           (Inr (int_toString (int allowance)), w\<lparr>io_log := io_log w @ [EthCall token data]\<rparr>)"
  using assms by (simp add: getAllowance_def eth_call_def)

lemma hasAugustusAllowance_miss:
  assumes native: "toLowerCase token \<noteq> toLowerCase (ETHER_ADDRESS k)"
    and miss: "token @ ''_'' @ spender \<notin> cache w (cacheApprovesKey this)"
    and enc: "encodeFunctionData (erc20Interface this) ''allowance'' [augustusAddress this, spender] = Some data"
    and call: "eth w token data = Some raw"
    and dec: "decodeFunctionResult (erc20Interface this) ''allowance'' raw = Some allowance"
    and amt: "BigInt amount = Some a"
  shows "hasAugustusAllowance k this token spender amount w =
           (if a \<le> int allowance
            then (Inr True,
                  w\<lparr>cache := (cache w)(cacheApprovesKey this :=
                               insert (token @ ''_'' @ spender) (cache w (cacheApprovesKey this))),
                    io_log := io_log w @ [CacheSIsMember (cacheApprovesKey this) (token @ ''_'' @ spender),
                                          EthCall token data,
                                          CacheSAdd (cacheApprovesKey this) (token @ ''_'' @ spender)]\<rparr>)
            else (Inr False,
                  w\<lparr>io_log := io_log w @ [CacheSIsMember (cacheApprovesKey this) (token @ ''_'' @ spender),
                                          EthCall token data]\<rparr>))"
proof -
  let ?w1 = "w\<lparr>io_log := io_log w @ [CacheSIsMember (cacheApprovesKey this) (token @ ''_'' @ spender)]\<rparr>"
  have g: "getAllowance this (augustusAddress this) token spender ?w1 =
             (Inr (int_toString (int allowance)), ?w1\<lparr>io_log := io_log ?w1 @ [EthCall token data]\<rparr>)"
    using enc call dec by (intro getAllowance_ok) simp_all
  show ?thesis
    using native miss amt g
    by (simp add: hasAugustusAllowance_def cache_sismember_def BigInt_int_toString cache_sadd_def Let_def)
qed

lemma hasAugustusAllowance_true_cached:
  assumes "toLowerCase token \<noteq> toLowerCase (ETHER_ADDRESS k)"
    and "hasAugustusAllowance k this token spender amount w = (Inr True, w1)"
  shows "token @ ''_'' @ spender \<in> cache w1 (cacheApprovesKey this)"
  using assms
  by (auto simp: hasAugustusAllowance_def cache_sismember_def cache_sadd_def getAllowance_def
      eth_call_def Let_def split: if_splits option.splits sum.splits prod.splits bool.splits)

lemma hasAugustusAllowance_malformed_no_write:
  assumes "BigInt amount = None"
  shows "cache (snd (hasAugustusAllowance k this token target amount w)) = cache w
       \<and> cache_writes (io_log (snd (hasAugustusAllowance k this token target amount w)))
           = cache_writes (io_log w)"
  using assms
  by (auto simp: hasAugustusAllowance_def cache_sismember_def getAllowance_def eth_call_def
       cache_writes_def Let_def split: prod.splits sum.splits option.splits if_splits bool.splits)

lemma hasAugustusAllowance_malformed_miss:
  assumes native: "toLowerCase token \<noteq> toLowerCase (ETHER_ADDRESS k)"
    and miss: "token @ ''_'' @ spender \<notin> cache w (cacheApprovesKey this)"
    and enc: "encodeFunctionData (erc20Interface this) ''allowance'' [augustusAddress this, spender] = Some data"
    and call: "eth w token data = Some raw"
    and dec: "decodeFunctionResult (erc20Interface this) ''allowance'' raw = Some allowance"
    and amt: "BigInt amount = None"
  shows "hasAugustusAllowance k this token spender amount w =
           (Inl SyntaxError,
            w\<lparr>io_log := io_log w @ [CacheSIsMember (cacheApprovesKey this) (token @ ''_'' @ spender),
                                  EthCall token data]\<rparr>)"
proof -
  let ?w1 = "w\<lparr>io_log := io_log w @ [CacheSIsMember (cacheApprovesKey this) (token @ ''_'' @ spender)]\<rparr>"
  have g: "getAllowance this (augustusAddress this) token spender ?w1 =
             (Inr (int_toString (int allowance)), ?w1\<lparr>io_log := io_log ?w1 @ [EthCall token data]\<rparr>)"
    using enc call dec by (intro getAllowance_ok) simp_all
  show ?thesis
    using native miss amt g
    by (simp add: hasAugustusAllowance_def cache_sismember_def BigInt_int_toString Let_def)
qed

lemma cache_keys_append: "cache_keys (xs @ ys) = cache_keys xs @ cache_keys ys"
  by (induction xs rule: cache_keys.induct) simp_all

lemma hasAugustusAllowance_cache_keys:
  "set (cache_keys (io_log (snd (hasAugustusAllowance k this token spender amount w))))
     = (if toLowerCase token = toLowerCase (ETHER_ADDRESS k) then set (cache_keys (io_log w))
        else insert (cacheApprovesKey this, token @ ''_'' @ spender) (set (cache_keys (io_log w))))"
  by (auto simp: hasAugustusAllowance_def cache_sismember_def getAllowance_def eth_call_def
       cache_sadd_def cache_keys_append Let_def
       split: prod.splits sum.splits option.splits if_splits bool.splits)

section \<open>The builder, branch by branch\<close>

text \<open>
  The approval sub-sequence and the builder add no I/O of their own: the world they
  return is the one the allowance oracle returned. The builder returns a sequence
  exactly when the oracle did not fail, the network fee reads as an integer and, for a
  native source, the source amount does.
\<close>

lemma getApproveSimpleParam_world:
  "snd (getApproveSimpleParam k this token target amount w)
     = snd (hasAugustusAllowance k this token target amount w)"
  by (simp add: getApproveSimpleParam_def split: prod.splits sum.splits option.splits)

lemma buildSimpleParamWithoutWETHConversion_world:
  "snd (buildSimpleParamWithoutWETHConversion k this src srcAmount dest destAmount swapCallData
          swapCallee spender fee preCalls w)
     = snd (getApproveSimpleParam k this src (spender_or spender swapCallee) srcAmount w)"
  by (simp add: buildSimpleParamWithoutWETHConversion_def Let_def
      split: prod.splits sum.splits option.splits)

lemma getApproveSimpleParam_sufficient:
  assumes "hasAugustusAllowance k this token target amount w = (Inr True, w1)"
  shows "getApproveSimpleParam k this token target amount w =
           (Inr \<lparr>callees = [], calldata = [], values = [], networkFee = ''0''\<rparr>, w1)"
  using assms by (simp add: getApproveSimpleParam_def)

lemma getApproveSimpleParam_insufficient:
  assumes "hasAugustusAllowance k this token target amount w = (Inr False, w1)"
    and "encodeFunctionData (simpleSwapHelper this) ''approve'' [token, target, MAX_UINT k] = Some payload"
  shows "getApproveSimpleParam k this token target amount w =
           (Inr \<lparr>callees = [augustusAddress this], calldata = [payload], values = [''0''],
                 networkFee = ''0''\<rparr>, w1)"
  using assms by (simp add: getApproveSimpleParam_def)

lemma getApproveSimpleParam_cases:
  assumes "getApproveSimpleParam k this token target amount w = (Inr ap, w1)"
  shows "(hasAugustusAllowance k this token target amount w = (Inr True, w1)
            \<and> ap = \<lparr>callees = [], calldata = [], values = [], networkFee = ''0''\<rparr>)
       \<or> (hasAugustusAllowance k this token target amount w = (Inr False, w1)
            \<and> (\<exists>payload.
                 encodeFunctionData (simpleSwapHelper this) ''approve'' [token, target, MAX_UINT k]
                   = Some payload
                 \<and> ap = \<lparr>callees = [augustusAddress this], calldata = [payload], values = [''0''],
                         networkFee = ''0''\<rparr>))"
  using assms
  by (auto simp: getApproveSimpleParam_def split: prod.splits sum.splits option.splits if_splits)

lemma buildSimpleParamWithoutWETHConversion_ok:
  assumes "getApproveSimpleParam k this src (spender_or spender swapCallee) srcAmount w = (Inr ap, w1)"
    and "BigInt (networkFee_or_default fee) = Some F"
    and "isETHAddress k src \<longrightarrow> BigInt srcAmount = Some A"
  shows "buildSimpleParamWithoutWETHConversion k this src srcAmount dest destAmount swapCallData
           swapCallee spender fee preCalls w =
           (Inr \<lparr>callees = preCalls_callees preCalls @ callees ap @ [swapCallee],
                 calldata = preCalls_calldata preCalls @ calldata ap @ [swapCallData],
                 values = preCalls_values preCalls @ values ap
                          @ [int_toString (if isETHAddress k src then F + A else F)],
                 networkFee = networkFee_or_default fee\<rparr>, w1)"
  using assms by (simp add: buildSimpleParamWithoutWETHConversion_def Let_def)

lemma buildSimpleParamWithoutWETHConversion_cases:
  assumes "buildSimpleParamWithoutWETHConversion k this src srcAmount dest destAmount swapCallData
           swapCallee spender fee preCalls w = (Inr r, w1)"
  shows "\<exists>ap F A.
           getApproveSimpleParam k this src (spender_or spender swapCallee) srcAmount w = (Inr ap, w1)
         \<and> BigInt (networkFee_or_default fee) = Some F
         \<and> (isETHAddress k src \<longrightarrow> BigInt srcAmount = Some A)
         \<and> r = \<lparr>callees = preCalls_callees preCalls @ callees ap @ [swapCallee],
                 calldata = preCalls_calldata preCalls @ calldata ap @ [swapCallData],
                 values = preCalls_values preCalls @ values ap
                          @ [int_toString (if isETHAddress k src then F + A else F)],
                 networkFee = networkFee_or_default fee\<rparr>"
  using assms
  by (auto simp: buildSimpleParamWithoutWETHConversion_def Let_def
      split: prod.splits sum.splits option.splits if_splits)

section \<open>Facts about the concrete exchange\<close>

lemma example_token_not_native:
  "toLowerCase ''0xTokenA'' \<noteq> toLowerCase (ETHER_ADDRESS example_constants)"
  by code_simp

lemma example_cacheApprovesKey: "cacheApprovesKey example_exchange = ''dl_1_approves''"
  by code_simp

lemma example_augustusAddress: "augustusAddress example_exchange = ''0xAugustus''"
  by code_simp

lemma example_allowance_data:
  "encodeFunctionData (erc20Interface example_exchange) ''allowance'' [''0xAugustus'', ''0xSpender'']
     = Some ''allowance:0xAugustus:0xSpender''"
  by code_simp

lemma example_decode_50:
  "decodeFunctionResult (erc20Interface example_exchange) ''allowance'' ''50'' = Some 50"
  by code_simp

lemma example_world_simps:
  "cache example_world = (\<lambda>_. {})"
  "eth example_world ''0xTokenA'' d = Some ''50''"
  "io_log example_world = []"
  by (simp_all add: example_world_def)

lemma example_amounts:
  "BigInt ''100'' = Some 100" "BigInt ''10'' = Some 10" "BigInt ''abc'' = None" "BigInt ''0'' = Some 0"
  "BigInt ''1000'' = Some 1000"
  by code_simp+

lemma example_first_call:
  "hasAugustusAllowance example_constants example_exchange ''0xTokenA'' ''0xSpender'' ''10''
     example_world = (Inr True, example_world_cached)"
proof -
  have h2: "''0xTokenA'' @ ''_'' @ ''0xSpender'' \<notin> cache example_world (cacheApprovesKey example_exchange)"
    by (simp add: example_world_simps)
  have h3: "encodeFunctionData (erc20Interface example_exchange) ''allowance''
              [augustusAddress example_exchange, ''0xSpender''] = Some ''allowance:0xAugustus:0xSpender''"
    by (simp add: example_augustusAddress example_allowance_data)
  from hasAugustusAllowance_miss [OF example_token_not_native h2 h3
         example_world_simps(2) [of "''allowance:0xAugustus:0xSpender''"] example_decode_50
         example_amounts(2)]
  show ?thesis
    by (simp add: example_cacheApprovesKey example_world_simps example_world_cached_def)
qed

lemma example_approve_data:
  "encodeFunctionData (simpleSwapHelper example_exchange) ''approve''
     [''0xTokenA'', ''0xSpender'', MAX_UINT example_constants] = Some example_approve_payload"
  by code_simp

lemma example_strings:
  "int_toString 5 = ''5''" "int_toString 1005 = ''1005''" "BigInt ''5'' = Some 5"
  "BigInt ''1005'' = Some 1005"
  by code_simp+

lemma example_native_lower:
  "toLowerCase ''0xEeeeeEeeeEeEeeEeEeEeeEEEeeeeEeeeeeeeEEeE'' = toLowerCase (ETHER_ADDRESS example_constants)"
  by code_simp

lemma example_native:
  "isETHAddress example_constants ''0xEeeeeEeeeEeEeeEeEeEeeEEEeeeeEeeeeeeeEEeE''"
  "\<not> isETHAddress example_constants ''0xTokenA''"
  by code_simp+

lemma example_insufficient_call:
  "hasAugustusAllowance example_constants example_exchange ''0xTokenA'' ''0xSpender'' ''100''
     example_world = (Inr False, example_world_missed)"
proof -
  have h2: "''0xTokenA'' @ ''_'' @ ''0xSpender'' \<notin> cache example_world (cacheApprovesKey example_exchange)"
    by (simp add: example_world_simps)
  have h3: "encodeFunctionData (erc20Interface example_exchange) ''allowance''
              [augustusAddress example_exchange, ''0xSpender''] = Some ''allowance:0xAugustus:0xSpender''"
    by (simp add: example_augustusAddress example_allowance_data)
  from hasAugustusAllowance_miss [OF example_token_not_native h2 h3
         example_world_simps(2) [of "''allowance:0xAugustus:0xSpender''"] example_decode_50
         example_amounts(1)]
  show ?thesis
    by (simp add: example_cacheApprovesKey example_world_simps example_world_missed_def)
qed

lemma example_malformed_call:
  "hasAugustusAllowance example_constants example_exchange ''0xTokenA'' ''0xSpender'' ''abc''
     example_world = (Inl SyntaxError, example_world_missed)"
proof -
  have h2: "''0xTokenA'' @ ''_'' @ ''0xSpender'' \<notin> cache example_world (cacheApprovesKey example_exchange)"
    by (simp add: example_world_simps)
  have h3: "encodeFunctionData (erc20Interface example_exchange) ''allowance''
              [augustusAddress example_exchange, ''0xSpender''] = Some ''allowance:0xAugustus:0xSpender''"
    by (simp add: example_augustusAddress example_allowance_data)
  from hasAugustusAllowance_malformed_miss [OF example_token_not_native h2 h3
         example_world_simps(2) [of "''allowance:0xAugustus:0xSpender''"] example_decode_50
         example_amounts(3)]
  show ?thesis
    by (simp add: example_cacheApprovesKey example_world_simps example_world_missed_def)
qed

lemma example_approve_insufficient:
  "getApproveSimpleParam example_constants example_exchange ''0xTokenA'' ''0xSpender'' ''100''
     example_world = (Inr example_approveParam, example_world_missed)"
  using getApproveSimpleParam_insufficient [OF example_insufficient_call example_approve_data]
  by (simp add: example_approveParam_def example_augustusAddress)

lemma example_approve_native:
  "getApproveSimpleParam example_constants example_exchange
     ''0xEeeeeEeeeEeEeeEeEeEeeEEEeeeeEeeeeeeeEEeE'' ''0xSpender'' ''1000'' example_world
     = (Inr \<lparr>callees = [], calldata = [], values = [], networkFee = ''0''\<rparr>, example_world)"
  by (rule getApproveSimpleParam_sufficient, rule hasAugustusAllowance_native)
     (rule example_native_lower)

lemma example_spender: "spender_or (Some ''0xSpender'') ''0xRouter'' = ''0xSpender''"
  by (simp add: spender_or_def)

lemma example_preCalls_simps:
  "preCalls_callees (Some example_preCalls) = [''0xPre'']"
  "preCalls_calldata (Some example_preCalls) = [''predata'']"
  "preCalls_values (Some example_preCalls) = [''0'']"
  "networkFee_or_default (Some ''5'') = ''5''"
  by (simp_all add: preCalls_callees_def preCalls_calldata_def preCalls_values_def
      example_preCalls_def networkFee_or_default_def)


section \<open>The allowance oracle: claims C1, C2 and C4\<close>

text \<open>
  C1. For a token whose address equals the native-asset address up to letter case, and
  for every spender, amount and world, \<open>hasAugustusAllowance\<close> returns true and
  leaves the world as it found it: the log of I/O operations has gained no cache lookup
  and no chain read.
\<close>

theorem native_token_allowed_without_io:
  assumes "toLowerCase token = toLowerCase (ETHER_ADDRESS k)"
  shows "hasAugustusAllowance k this token spender amount w = (Inr True, w)
         \<and> io_log (snd (hasAugustusAllowance k this token spender amount w)) = io_log w"
  using assms by (simp add: hasAugustusAllowance_def)

theorem native_token_allowed_without_io_witness:
  "toLowerCase ''0xeeeeeeeeeeeeeeeeeeeeeeeeeeeeeeeeeeeeeeee'' = toLowerCase (ETHER_ADDRESS example_constants)
   \<and> hasAugustusAllowance example_constants example_exchange
         ''0xeeeeeeeeeeeeeeeeeeeeeeeeeeeeeeeeeeeeeeee'' ''0xSpender'' ''1000'' example_world
       = (Inr True, example_world)"
proof -
  have h: "toLowerCase ''0xeeeeeeeeeeeeeeeeeeeeeeeeeeeeeeeeeeeeeeee'' = toLowerCase (ETHER_ADDRESS example_constants)"
    by code_simp
  from native_token_allowed_without_io [OF h] h show ?thesis by simp
qed

text \<open>
  C2. For a token that is not the native asset and a pair that the cache does not hold,
  when the chain read succeeds and decodes to \<open>allowance\<close>: the oracle performs
  exactly one chain read, whatever the amount. When the amount reads as the integer
  \<open>a\<close>, the read comes after the cache lookup and the oracle returns whether
  \<open>a \<le> allowance\<close> as integers; when it is, the pair's key is added to the
  approval set, and when it is not, the cache is as before and no cache write is
  performed.
\<close>

theorem cache_miss_reads_chain_once:
  assumes "toLowerCase token \<noteq> toLowerCase (ETHER_ADDRESS k)"
    and "token @ ''_'' @ spender \<notin> cache w (cacheApprovesKey this)"
    and "encodeFunctionData (erc20Interface this) ''allowance'' [augustusAddress this, spender] = Some data"
    and "eth w token data = Some raw"
    and "decodeFunctionResult (erc20Interface this) ''allowance'' raw = Some allowance"
  shows "eth_reads (io_log (snd (hasAugustusAllowance k this token spender amount w)))
           = eth_reads (io_log w) + 1
     \<and> (BigInt amount = Some a \<longrightarrow>
          hasAugustusAllowance k this token spender amount w =
            (Inr (a \<le> int allowance),
             w\<lparr>cache :=
                 (if a \<le> int allowance
                  then (cache w)(cacheApprovesKey this :=
                                 insert (token @ ''_'' @ spender) (cache w (cacheApprovesKey this)))
                  else cache w),
               io_log :=
                 io_log w
                 @ [CacheSIsMember (cacheApprovesKey this) (token @ ''_'' @ spender), EthCall token data]
                 @ (if a \<le> int allowance
                    then [CacheSAdd (cacheApprovesKey this) (token @ ''_'' @ spender)] else [])\<rparr>)
          \<and> cache_writes (io_log (snd (hasAugustusAllowance k this token spender amount w)))
              = cache_writes (io_log w) + (if a \<le> int allowance then 1 else 0))"
proof (cases "BigInt amount")
  case None
  from hasAugustusAllowance_malformed_miss [OF assms None] show ?thesis
    by (simp add: None eth_reads_def)
next
  case (Some b)
  from hasAugustusAllowance_miss [OF assms Some] show ?thesis
    by (simp add: Some eth_reads_def cache_writes_def)
qed

theorem cache_miss_reads_chain_once_witness:
  "hasAugustusAllowance example_constants example_exchange ''0xTokenA'' ''0xSpender'' ''100'' example_world
     = (Inr False,
        example_world\<lparr>io_log := [CacheSIsMember ''dl_1_approves'' ''0xTokenA_0xSpender'',
                                  EthCall ''0xTokenA'' ''allowance:0xAugustus:0xSpender'']\<rparr>)
   \<and> hasAugustusAllowance example_constants example_exchange ''0xTokenA'' ''0xSpender'' ''10'' example_world
     = (Inr True,
        example_world\<lparr>cache := (\<lambda>_. {})(''dl_1_approves'' := {''0xTokenA_0xSpender''}),
                      io_log := [CacheSIsMember ''dl_1_approves'' ''0xTokenA_0xSpender'',
                                 EthCall ''0xTokenA'' ''allowance:0xAugustus:0xSpender'',
                                 CacheSAdd ''dl_1_approves'' ''0xTokenA_0xSpender'']\<rparr>)"
proof -
  note h1 = example_token_not_native
  have h2: "''0xTokenA'' @ ''_'' @ ''0xSpender'' \<notin> cache example_world (cacheApprovesKey example_exchange)"
    by (simp add: example_world_simps)
  have h3: "encodeFunctionData (erc20Interface example_exchange) ''allowance''
              [augustusAddress example_exchange, ''0xSpender''] = Some ''allowance:0xAugustus:0xSpender''"
    by (simp add: example_augustusAddress example_allowance_data)
  note h4 = example_world_simps(2) [of "''allowance:0xAugustus:0xSpender''"]
  note h5 = example_decode_50
  from cache_miss_reads_chain_once [OF h1 h2 h3 h4 h5, of "''100''" 100]
       cache_miss_reads_chain_once [OF h1 h2 h3 h4 h5, of "''10''" 10]
       example_amounts(1,2)
  show ?thesis
    by (simp add: example_cacheApprovesKey example_world_simps)
qed

text \<open>
  C4. For a token that is not the native asset and a pair whose key the approval set
  holds, the oracle returns true after the cache lookup alone, with no chain read.
  So after a call that returned true for a pair, a second call for the pair, for any
  amount and whatever the chain has become, performs no chain read.
\<close>

theorem cached_pair_served_without_chain_read:
  "(toLowerCase token \<noteq> toLowerCase (ETHER_ADDRESS k)
      \<and> token @ ''_'' @ spender \<in> cache w (cacheApprovesKey this)
    \<longrightarrow> hasAugustusAllowance k this token spender amount w =
          (Inr True,
           w\<lparr>io_log := io_log w @ [CacheSIsMember (cacheApprovesKey this) (token @ ''_'' @ spender)]\<rparr>)
        \<and> eth_reads (io_log (snd (hasAugustusAllowance k this token spender amount w)))
            = eth_reads (io_log w))
   \<and> (toLowerCase token \<noteq> toLowerCase (ETHER_ADDRESS k)
      \<and> hasAugustusAllowance k this token spender amount w = (Inr True, w1)
      \<and> cache w2 = cache w1
    \<longrightarrow> hasAugustusAllowance k this token spender amount2 w2 =
          (Inr True,
           w2\<lparr>io_log := io_log w2 @ [CacheSIsMember (cacheApprovesKey this) (token @ ''_'' @ spender)]\<rparr>)
        \<and> eth_reads (io_log (snd (hasAugustusAllowance k this token spender amount2 w2)))
            = eth_reads (io_log w2))"
proof (intro conjI impI)
  assume a: "toLowerCase token \<noteq> toLowerCase (ETHER_ADDRESS k)
      \<and> token @ ''_'' @ spender \<in> cache w (cacheApprovesKey this)"
  then show "hasAugustusAllowance k this token spender amount w =
          (Inr True,
           w\<lparr>io_log := io_log w @ [CacheSIsMember (cacheApprovesKey this) (token @ ''_'' @ spender)]\<rparr>)"
    by (simp add: hasAugustusAllowance_hit)
  then show "eth_reads (io_log (snd (hasAugustusAllowance k this token spender amount w)))
            = eth_reads (io_log w)"
    by (simp add: eth_reads_def)
next
  assume a: "toLowerCase token \<noteq> toLowerCase (ETHER_ADDRESS k)
      \<and> hasAugustusAllowance k this token spender amount w = (Inr True, w1)
      \<and> cache w2 = cache w1"
  then have "token @ ''_'' @ spender \<in> cache w2 (cacheApprovesKey this)"
    using hasAugustusAllowance_true_cached [of token k this spender amount w w1] by simp
  with a show "hasAugustusAllowance k this token spender amount2 w2 =
          (Inr True,
           w2\<lparr>io_log := io_log w2 @ [CacheSIsMember (cacheApprovesKey this) (token @ ''_'' @ spender)]\<rparr>)"
    by (simp add: hasAugustusAllowance_hit)
  then show "eth_reads (io_log (snd (hasAugustusAllowance k this token spender amount2 w2)))
            = eth_reads (io_log w2)"
    by (simp add: eth_reads_def)
qed

theorem cached_pair_served_without_chain_read_witness:
  "hasAugustusAllowance example_constants example_exchange ''0xTokenA'' ''0xSpender'' ''1000''
     example_world_cached
     = (Inr True,
        example_world_cached
          \<lparr>io_log := io_log example_world_cached
                      @ [CacheSIsMember ''dl_1_approves'' ''0xTokenA_0xSpender'']\<rparr>)
   \<and> hasAugustusAllowance example_constants example_exchange ''0xTokenA'' ''0xSpender'' ''1000''
       (example_world_cached\<lparr>eth := (\<lambda>_ _. None)\<rparr>)
     = (Inr True,
        example_world_cached
          \<lparr>eth := (\<lambda>_ _. None),
           io_log := io_log example_world_cached
                      @ [CacheSIsMember ''dl_1_approves'' ''0xTokenA_0xSpender'']\<rparr>)"
proof -
  have c: "''0xTokenA'' @ ''_'' @ ''0xSpender''
             \<in> cache example_world_cached (cacheApprovesKey example_exchange)"
    by (simp add: example_world_cached_def example_cacheApprovesKey)
  have s: "cache (example_world_cached\<lparr>eth := (\<lambda>_ _. None)\<rparr>) = cache example_world_cached"
    by simp
  from cached_pair_served_without_chain_read
         [of "''0xTokenA''" example_constants "''0xSpender''" example_world_cached
             example_exchange "''1000''"]
       example_token_not_native c
  have p1: "hasAugustusAllowance example_constants example_exchange ''0xTokenA'' ''0xSpender'' ''1000''
     example_world_cached
     = (Inr True,
        example_world_cached
          \<lparr>io_log := io_log example_world_cached
                      @ [CacheSIsMember ''dl_1_approves'' ''0xTokenA_0xSpender'']\<rparr>)"
    by (simp add: example_cacheApprovesKey)
  from cached_pair_served_without_chain_read
         [of "''0xTokenA''" example_constants "''0xSpender''" example_world
             example_exchange "''10''" example_world_cached
             "example_world_cached\<lparr>eth := (\<lambda>_ _. None)\<rparr>" "''1000''"]
       example_token_not_native example_first_call s
  have p2: "hasAugustusAllowance example_constants example_exchange ''0xTokenA'' ''0xSpender'' ''1000''
       (example_world_cached\<lparr>eth := (\<lambda>_ _. None)\<rparr>)
     = (Inr True,
        example_world_cached
          \<lparr>eth := (\<lambda>_ _. None),
           io_log := io_log example_world_cached
                      @ [CacheSIsMember ''dl_1_approves'' ''0xTokenA_0xSpender'']\<rparr>)"
    by (simp add: example_cacheApprovesKey)
  from p1 p2 show ?thesis by simp
qed

section \<open>The deadline placeholder: claim C8\<close>

text \<open>
  C8. At a clock reading of \<open>getTime\<close> milliseconds, that is at time
  \<open>t = getTime / 1000\<close> seconds since the epoch, the placeholder is the decimal string of
  \<open>floor t + 604800\<close>; the offset is seven days of 86400 seconds. The result is a
  function of the clock reading of the call alone: nothing is kept between calls.
\<close>

theorem deadline_placeholder_is_now_plus_seven_days:
  "getLocalDeadlineAsFriendlyPlaceholder getTime
     = int_toString (\<lfloor>real_of_int getTime / 1000\<rfloor> + 604800)
   \<and> FRIENDLY_LOCAL_DEADLINE = 7 * 86400"
proof -
  have "\<lfloor>real_of_int getTime / real_of_int 1000\<rfloor> = getTime div 1000"
    by (rule floor_divide_of_int_eq)
  then show ?thesis
    by (simp add: getLocalDeadlineAsFriendlyPlaceholder_def FRIENDLY_LOCAL_DEADLINE_def)
qed

lemma deadline_placeholder_example:
  "getLocalDeadlineAsFriendlyPlaceholder 1700000000999 = ''1700604800''"
  by code_simp

section \<open>The approval sub-sequence: claim C5\<close>

text \<open>
  C5. When the oracle finds the allowance sufficient, \<open>getApproveSimpleParam\<close>
  returns the empty sub-sequence: no callee, no calldata, no value, network fee
  \<open>'0'\<close>. When the oracle finds it insufficient, it returns exactly one step: the
  callee is the router address of the configuration, the calldata is the helper's
  encoding of \<open>approve\<close> with the token, the target and \<open>MAX_UINT\<close> (the requested
  amount is not an argument of the call), and the value is \<open>'0'\<close>.
\<close>

theorem approve_param_empty_or_max_approval:
  "(hasAugustusAllowance k this token target amount w = (Inr True, w1)
    \<longrightarrow> getApproveSimpleParam k this token target amount w =
          (Inr \<lparr>callees = [], calldata = [], values = [], networkFee = ''0''\<rparr>, w1))
   \<and> (hasAugustusAllowance k this token target amount w = (Inr False, w1)
      \<and> encodeFunctionData (simpleSwapHelper this) ''approve'' [token, target, MAX_UINT k]
          = Some payload
    \<longrightarrow> getApproveSimpleParam k this token target amount w =
          (Inr \<lparr>callees = [augustusAddress this], calldata = [payload], values = [''0''],
                networkFee = ''0''\<rparr>, w1))"
  by (simp add: getApproveSimpleParam_def)

theorem approve_param_empty_or_max_approval_witness:
  "getApproveSimpleParam example_constants example_exchange ''0xTokenA'' ''0xSpender'' ''10''
     example_world
     = (Inr \<lparr>callees = [], calldata = [], values = [], networkFee = ''0''\<rparr>, example_world_cached)
   \<and> getApproveSimpleParam example_constants example_exchange ''0xTokenA'' ''0xSpender'' ''100''
       example_world
     = (Inr \<lparr>callees = [''0xAugustus''], calldata = [example_approve_payload], values = [''0''],
             networkFee = ''0''\<rparr>, example_world_missed)"
  using approve_param_empty_or_max_approval
          [of example_constants example_exchange "''0xTokenA''" "''0xSpender''" "''10''"
              example_world example_world_cached]
        approve_param_empty_or_max_approval
          [of example_constants example_exchange "''0xTokenA''" "''0xSpender''" "''100''"
              example_world example_world_missed example_approve_payload]
        example_first_call example_insufficient_call example_approve_data
  by (simp add: example_augustusAddress)

section \<open>The value of the swap step: claim C6\<close>

text \<open>
  C6. For a request whose network fee reads as the integer \<open>F\<close> and whose source
  amount, when the source is the native asset, reads as the integer \<open>A\<close>, and for
  which the approval sub-sequence was obtained: the builder returns a sequence whose
  values are those of the pre-calls, those of the approval sub-sequence, and last the
  value of the swap step, which is the decimal string of \<open>F + A\<close> for a native
  source and of \<open>F\<close> otherwise, and reads back as that integer. The approval
  sub-sequence has no value or the single value \<open>'0'\<close>.
\<close>

theorem swap_value_accounting:
  assumes "getApproveSimpleParam k this src (spender_or spender swapCallee) srcAmount w = (Inr ap, w1)"
    and "BigInt (networkFee_or_default fee) = Some F"
    and "isETHAddress k src \<longrightarrow> BigInt srcAmount = Some A"
  shows "\<exists>r. buildSimpleParamWithoutWETHConversion k this src srcAmount dest destAmount swapCallData
               swapCallee spender fee preCalls w = (Inr r, w1)
           \<and> values r = preCalls_values preCalls @ values ap
                         @ [int_toString (if isETHAddress k src then F + A else F)]
           \<and> BigInt (last (values r)) = Some (if isETHAddress k src then F + A else F)
           \<and> (values ap = [] \<or> values ap = [''0''])"
proof -
  from getApproveSimpleParam_cases [OF assms(1)]
  have "values ap = [] \<or> values ap = [''0'']" by auto
  with buildSimpleParamWithoutWETHConversion_ok [OF assms] show ?thesis
    by (simp add: BigInt_int_toString)
qed

theorem swap_value_accounting_witness:
  "(\<exists>r. buildSimpleParamWithoutWETHConversion example_constants example_exchange
          ''0xEeeeeEeeeEeEeeEeEeEeeEEEeeeeEeeeeeeeEEeE'' ''1000'' ''0xTokenB'' ''7'' ''swapdata''
          ''0xRouter'' (Some ''0xSpender'') (Some ''5'') (Some example_preCalls) example_world
        = (Inr r, example_world)
      \<and> values r = [''0'', ''1005''])
   \<and> (\<exists>r. buildSimpleParamWithoutWETHConversion example_constants example_exchange
          ''0xTokenA'' ''100'' ''0xTokenB'' ''7'' ''swapdata''
          ''0xRouter'' (Some ''0xSpender'') (Some ''5'') (Some example_preCalls) example_world
        = (Inr r, example_world_missed)
      \<and> values r = [''0'', ''0'', ''5''])"
proof -
  have a1: "getApproveSimpleParam example_constants example_exchange
              ''0xEeeeeEeeeEeEeeEeEeEeeEEEeeeeEeeeeeeeEEeE''
              (spender_or (Some ''0xSpender'') ''0xRouter'') ''1000'' example_world
            = (Inr \<lparr>callees = [], calldata = [], values = [], networkFee = ''0''\<rparr>, example_world)"
    by (simp add: example_spender example_approve_native)
  have a2: "getApproveSimpleParam example_constants example_exchange ''0xTokenA''
             (spender_or (Some ''0xSpender'') ''0xRouter'') ''100'' example_world
           = (Inr example_approveParam, example_world_missed)"
    by (simp add: example_spender example_approve_insufficient)
  have f: "BigInt (networkFee_or_default (Some ''5'')) = Some 5"
    by (simp add: example_preCalls_simps example_strings)
  have n1: "isETHAddress example_constants ''0xEeeeeEeeeEeEeeEeEeEeeEEEeeeeEeeeeeeeEEeE''
              \<longrightarrow> BigInt ''1000'' = Some 1000"
    by (simp add: example_amounts)
  have n2: "isETHAddress example_constants ''0xTokenA'' \<longrightarrow> BigInt ''100'' = Some 100"
    by (simp add: example_native)
  from swap_value_accounting [OF a1 f n1, of "''0xTokenB''" "''7''" "''swapdata''" "Some example_preCalls"]
       swap_value_accounting [OF a2 f n2, of "''0xTokenB''" "''7''" "''swapdata''" "Some example_preCalls"]
  show ?thesis
    by (auto simp: example_preCalls_simps example_strings example_native example_approveParam_def)
qed

section \<open>The order of the sequence: claim C7\<close>

text \<open>
  C7. Whenever the approval sub-sequence is obtained, the network fee reads as an integer
  and, for a native source, the source amount does, the builder returns a sequence, and
  it is the pre-calls of the caller, then the approval sub-sequence (empty, or the single
  approval step on the router address), then the swap step, whose callee is the swap
  callee and whose calldata is the swap calldata of the caller. So every pre-call index is
  below the index of the approval step, which is below the index of the swap step. The
  network fee of the result is that of the request (\<open>'0'\<close> when the request has none).
  And the builder returns no sequence of another form.
\<close>

theorem sequence_is_precalls_approval_swap:
  "(getApproveSimpleParam k this src (spender_or spender swapCallee) srcAmount w = (Inr ap, w1)
      \<and> BigInt (networkFee_or_default fee) = Some F
      \<and> (isETHAddress k src \<longrightarrow> BigInt srcAmount = Some A)
    \<longrightarrow> buildSimpleParamWithoutWETHConversion k this src srcAmount dest destAmount swapCallData
          swapCallee spender fee preCalls w
        = (Inr \<lparr>callees = preCalls_callees preCalls @ callees ap @ [swapCallee],
                calldata = preCalls_calldata preCalls @ calldata ap @ [swapCallData],
                values = preCalls_values preCalls @ values ap
                         @ [int_toString (if isETHAddress k src then F + A else F)],
                networkFee = networkFee_or_default fee\<rparr>, w1)
      \<and> (ap = \<lparr>callees = [], calldata = [], values = [], networkFee = ''0''\<rparr>
         \<or> (\<exists>payload. ap = \<lparr>callees = [augustusAddress this], calldata = [payload],
                              values = [''0''], networkFee = ''0''\<rparr>))
      \<and> length (callees ap) \<le> 1
      \<and> (\<forall>i < length (preCalls_callees preCalls).
            (preCalls_callees preCalls @ callees ap @ [swapCallee]) ! i
              = preCalls_callees preCalls ! i)
      \<and> (\<forall>j < length (callees ap).
            (preCalls_callees preCalls @ callees ap @ [swapCallee])
              ! (length (preCalls_callees preCalls) + j) = augustusAddress this)
      \<and> (preCalls_callees preCalls @ callees ap @ [swapCallee])
           ! (length (preCalls_callees preCalls) + length (callees ap)) = swapCallee
      \<and> (preCalls_calldata preCalls @ calldata ap @ [swapCallData])
           ! (length (preCalls_calldata preCalls) + length (calldata ap)) = swapCallData)
   \<and> (buildSimpleParamWithoutWETHConversion k this src srcAmount dest destAmount swapCallData
         swapCallee spender fee preCalls w = (Inr r, w2)
    \<longrightarrow> (\<exists>ap'. getApproveSimpleParam k this src (spender_or spender swapCallee) srcAmount w
                  = (Inr ap', w2)
           \<and> (ap' = \<lparr>callees = [], calldata = [], values = [], networkFee = ''0''\<rparr>
              \<or> (\<exists>payload. ap' = \<lparr>callees = [augustusAddress this], calldata = [payload],
                                    values = [''0''], networkFee = ''0''\<rparr>))
           \<and> callees r = preCalls_callees preCalls @ callees ap' @ [swapCallee]
           \<and> calldata r = preCalls_calldata preCalls @ calldata ap' @ [swapCallData]
           \<and> (\<exists>swapValue. values r = preCalls_values preCalls @ values ap' @ [swapValue])
           \<and> networkFee r = networkFee_or_default fee))"
proof (intro conjI impI)
  assume h: "getApproveSimpleParam k this src (spender_or spender swapCallee) srcAmount w = (Inr ap, w1)
      \<and> BigInt (networkFee_or_default fee) = Some F
      \<and> (isETHAddress k src \<longrightarrow> BigInt srcAmount = Some A)"
  then have a: "getApproveSimpleParam k this src (spender_or spender swapCallee) srcAmount w = (Inr ap, w1)"
    and f: "BigInt (networkFee_or_default fee) = Some F"
    and n: "isETHAddress k src \<longrightarrow> BigInt srcAmount = Some A"
    by simp_all
  show "buildSimpleParamWithoutWETHConversion k this src srcAmount dest destAmount swapCallData
          swapCallee spender fee preCalls w
        = (Inr \<lparr>callees = preCalls_callees preCalls @ callees ap @ [swapCallee],
                calldata = preCalls_calldata preCalls @ calldata ap @ [swapCallData],
                values = preCalls_values preCalls @ values ap
                         @ [int_toString (if isETHAddress k src then F + A else F)],
                networkFee = networkFee_or_default fee\<rparr>, w1)"
    by (rule buildSimpleParamWithoutWETHConversion_ok [OF a f n])
  from getApproveSimpleParam_cases [OF a]
  show shape: "ap = \<lparr>callees = [], calldata = [], values = [], networkFee = ''0''\<rparr>
         \<or> (\<exists>payload. ap = \<lparr>callees = [augustusAddress this], calldata = [payload],
                              values = [''0''], networkFee = ''0''\<rparr>)"
    by blast
  then show len: "length (callees ap) \<le> 1" by auto
  show "\<forall>i < length (preCalls_callees preCalls).
            (preCalls_callees preCalls @ callees ap @ [swapCallee]) ! i
              = preCalls_callees preCalls ! i"
    by (simp add: nth_append)
  from shape have "\<forall>j < length (callees ap). callees ap ! j = augustusAddress this" by auto
  then show "\<forall>j < length (callees ap).
            (preCalls_callees preCalls @ callees ap @ [swapCallee])
              ! (length (preCalls_callees preCalls) + j) = augustusAddress this"
    by (simp add: nth_append)
  show "(preCalls_callees preCalls @ callees ap @ [swapCallee])
           ! (length (preCalls_callees preCalls) + length (callees ap)) = swapCallee"
    by (simp add: nth_append)
  show "(preCalls_calldata preCalls @ calldata ap @ [swapCallData])
           ! (length (preCalls_calldata preCalls) + length (calldata ap)) = swapCallData"
    by (simp add: nth_append)
next
  assume b: "buildSimpleParamWithoutWETHConversion k this src srcAmount dest destAmount swapCallData
         swapCallee spender fee preCalls w = (Inr r, w2)"
  from buildSimpleParamWithoutWETHConversion_cases [OF b]
  obtain ap' F' A' where
    ap: "getApproveSimpleParam k this src (spender_or spender swapCallee) srcAmount w = (Inr ap', w2)"
    and r: "r = \<lparr>callees = preCalls_callees preCalls @ callees ap' @ [swapCallee],
                 calldata = preCalls_calldata preCalls @ calldata ap' @ [swapCallData],
                 values = preCalls_values preCalls @ values ap'
                          @ [int_toString (if isETHAddress k src then F' + A' else F')],
                 networkFee = networkFee_or_default fee\<rparr>"
    by blast
  from getApproveSimpleParam_cases [OF ap]
  have shape: "ap' = \<lparr>callees = [], calldata = [], values = [], networkFee = ''0''\<rparr>
        \<or> (\<exists>payload. ap' = \<lparr>callees = [augustusAddress this], calldata = [payload],
                             values = [''0''], networkFee = ''0''\<rparr>)"
    by blast
  from ap shape show "\<exists>ap'. getApproveSimpleParam k this src (spender_or spender swapCallee) srcAmount w
                  = (Inr ap', w2)
           \<and> (ap' = \<lparr>callees = [], calldata = [], values = [], networkFee = ''0''\<rparr>
              \<or> (\<exists>payload. ap' = \<lparr>callees = [augustusAddress this], calldata = [payload],
                                    values = [''0''], networkFee = ''0''\<rparr>))
           \<and> callees r = preCalls_callees preCalls @ callees ap' @ [swapCallee]
           \<and> calldata r = preCalls_calldata preCalls @ calldata ap' @ [swapCallData]
           \<and> (\<exists>swapValue. values r = preCalls_values preCalls @ values ap' @ [swapValue])
           \<and> networkFee r = networkFee_or_default fee"
    by (intro exI [of _ ap'] conjI) (simp_all add: r)
qed

theorem sequence_is_precalls_approval_swap_witness:
  "buildSimpleParamWithoutWETHConversion example_constants example_exchange ''0xTokenA'' ''100''
     ''0xTokenB'' ''7'' ''swapdata'' ''0xRouter'' (Some ''0xSpender'') (Some ''5'')
     (Some example_preCalls) example_world
     = (Inr \<lparr>callees = [''0xPre'', ''0xAugustus'', ''0xRouter''],
             calldata = [''predata'', example_approve_payload, ''swapdata''],
             values = [''0'', ''0'', ''5''],
             networkFee = ''5''\<rparr>, example_world_missed)
   \<and> buildSimpleParamWithoutWETHConversion example_constants example_exchange
       ''0xEeeeeEeeeEeEeeEeEeEeeEEEeeeeEeeeeeeeEEeE'' ''1000'' ''0xTokenB'' ''7'' ''swapdata''
       ''0xRouter'' (Some ''0xSpender'') None None example_world
     = (Inr \<lparr>callees = [''0xRouter''], calldata = [''swapdata''], values = [''1000''],
             networkFee = ''0''\<rparr>, example_world)"
proof -
  have a1: "getApproveSimpleParam example_constants example_exchange ''0xTokenA''
             (spender_or (Some ''0xSpender'') ''0xRouter'') ''100'' example_world
           = (Inr example_approveParam, example_world_missed)"
    by (simp add: example_spender example_approve_insufficient)
  have f1: "BigInt (networkFee_or_default (Some ''5'')) = Some 5"
    by (simp add: example_preCalls_simps example_strings)
  have n1: "isETHAddress example_constants ''0xTokenA'' \<longrightarrow> BigInt ''100'' = Some 100"
    by (simp add: example_native)
  have a2: "getApproveSimpleParam example_constants example_exchange
              ''0xEeeeeEeeeEeEeeEeEeEeeEEEeeeeEeeeeeeeEEeE''
              (spender_or (Some ''0xSpender'') ''0xRouter'') ''1000'' example_world
            = (Inr \<lparr>callees = [], calldata = [], values = [], networkFee = ''0''\<rparr>, example_world)"
    by (simp add: example_spender example_approve_native)
  have f2: "BigInt (networkFee_or_default None) = Some 0"
    by (simp add: networkFee_or_default_def example_amounts)
  have n2: "isETHAddress example_constants ''0xEeeeeEeeeEeEeeEeEeEeeEEEeeeeEeeeeeeeEEeE''
              \<longrightarrow> BigInt ''1000'' = Some 1000"
    by (simp add: example_amounts)
  have s: "int_toString 1000 = ''1000''" by code_simp
  from sequence_is_precalls_approval_swap
         [of example_constants example_exchange "''0xTokenA''" "Some ''0xSpender''" "''0xRouter''"
             "''100''" example_world example_approveParam example_world_missed "Some ''5''" 5 100
             "''0xTokenB''" "''7''" "''swapdata''" "Some example_preCalls"]
       a1 f1 n1
  have p1: "buildSimpleParamWithoutWETHConversion example_constants example_exchange ''0xTokenA'' ''100''
     ''0xTokenB'' ''7'' ''swapdata'' ''0xRouter'' (Some ''0xSpender'') (Some ''5'')
     (Some example_preCalls) example_world
     = (Inr \<lparr>callees = [''0xPre'', ''0xAugustus'', ''0xRouter''],
             calldata = [''predata'', example_approve_payload, ''swapdata''],
             values = [''0'', ''0'', ''5''],
             networkFee = ''5''\<rparr>, example_world_missed)"
    by (simp add: example_preCalls_simps example_strings example_native example_approveParam_def)
  from sequence_is_precalls_approval_swap
         [of example_constants example_exchange "''0xEeeeeEeeeEeEeeEeEeEeeEEEeeeeEeeeeeeeEEeE''"
             "Some ''0xSpender''" "''0xRouter''" "''1000''" example_world
             "\<lparr>callees = [], calldata = [], values = [], networkFee = ''0''\<rparr>" example_world
             None 0 1000 "''0xTokenB''" "''7''" "''swapdata''" None]
       a2 f2 n2
  have p2: "buildSimpleParamWithoutWETHConversion example_constants example_exchange
       ''0xEeeeeEeeeEeEeeEeEeEeeEEEeeeeEeeeeeeeEEeE'' ''1000'' ''0xTokenB'' ''7'' ''swapdata''
       ''0xRouter'' (Some ''0xSpender'') None None example_world
     = (Inr \<lparr>callees = [''0xRouter''], calldata = [''swapdata''], values = [''1000''],
             networkFee = ''0''\<rparr>, example_world)"
    by (simp add: preCalls_callees_def preCalls_calldata_def preCalls_values_def
        networkFee_or_default_def example_native s)
  from p1 p2 show ?thesis by simp
qed

section \<open>Arrays of one length: claim C10\<close>



section \<open>The keys of the approval cache: claim C3\<close>

text \<open>
  The cache after a call of the oracle is the cache before it, or that cache with the
  pair's key added to the approval set; and a failure of the oracle passes through the
  approval sub-sequence and the builder with the world the oracle left.
\<close>

lemma hasAugustusAllowance_cache_after:
  "cache (snd (hasAugustusAllowance k this token spender amount w)) = cache w
   \<or> cache (snd (hasAugustusAllowance k this token spender amount w))
       = (cache w)(cacheApprovesKey this :=
                     insert (token @ ''_'' @ spender) (cache w (cacheApprovesKey this)))"
  by (auto simp: hasAugustusAllowance_def cache_sismember_def getAllowance_def eth_call_def
       cache_sadd_def Let_def
       split: prod.splits sum.splits option.splits if_splits bool.splits)

lemma getApproveSimpleParam_error:
  assumes "hasAugustusAllowance k this token target amount w = (Inl e, w1)"
  shows "getApproveSimpleParam k this token target amount w = (Inl e, w1)"
  using assms by (simp add: getApproveSimpleParam_def)

lemma buildSimpleParamWithoutWETHConversion_error:
  assumes "getApproveSimpleParam k this src (spender_or spender swapCallee) srcAmount w = (Inl e, w1)"
  shows "buildSimpleParamWithoutWETHConversion k this src srcAmount dest destAmount swapCallData
           swapCallee spender fee preCalls w = (Inl e, w1)"
  using assms by (simp add: buildSimpleParamWithoutWETHConversion_def Let_def)

text \<open>
  C3, as the specification words it, asks for the set key
  \<open>{prefix}_{networkId}_{integrationId}_approves\<close> and for an element key made of the
  two lower-cased addresses. On the concrete exchange of the integration \<open>UniswapV2\<close>
  the set key is \<open>dl_1_approves\<close>, not \<open>dl_1_uniswapv2_approves\<close>, and the element
  key looked up and stored for the pair (\<open>0xTokenA\<close>, \<open>0xSpender\<close>) is
  \<open>0xTokenA_0xSpender\<close>, not \<open>0xtokena_0xspender\<close>.
\<close>

theorem approval_cache_keys_counterexample:
  "cacheApprovesKey example_exchange = ''dl_1_approves''
   \<and> spec_cacheApprovesKey (CACHE_PREFIX example_constants) (network example_exchange)
         (dexKey example_exchange) = ''dl_1_uniswapv2_approves''
   \<and> cacheApprovesKey example_exchange
       \<noteq> spec_cacheApprovesKey (CACHE_PREFIX example_constants) (network example_exchange)
            (dexKey example_exchange)
   \<and> cache_keys (io_log (snd (hasAugustusAllowance example_constants example_exchange
              ''0xTokenA'' ''0xSpender'' ''10'' example_world)))
       = [(''dl_1_approves'', ''0xTokenA_0xSpender''), (''dl_1_approves'', ''0xTokenA_0xSpender'')]
   \<and> spec_approvalKey ''0xTokenA'' ''0xSpender'' = ''0xtokena_0xspender''
   \<and> ''0xTokenA_0xSpender'' \<noteq> spec_approvalKey ''0xTokenA'' ''0xSpender''"
proof -
  have k: "spec_cacheApprovesKey (CACHE_PREFIX example_constants) (network example_exchange)
         (dexKey example_exchange) = ''dl_1_uniswapv2_approves''"
    by code_simp
  have e: "spec_approvalKey ''0xTokenA'' ''0xSpender'' = ''0xtokena_0xspender''"
    by code_simp
  show ?thesis
    by (simp add: k e example_cacheApprovesKey example_first_call example_world_cached_def)
qed

text \<open>
  C3, as the exchange does it. The set key of the approval cache is the lower-cased
  string \<open>{prefix}_{networkId}_approves\<close>, whatever the integration; every cache
  operation of the oracle is on that set, with the element key
  \<open>{tokenAddress}_{spenderAddress}\<close>, both addresses as they were passed; and that
  key is the only element the oracle ever adds.
\<close>

theorem approval_cache_keys_as_used:
  "cacheApprovesKey (SimpleExchange_new k SimpleSwapHelperABI ERC20ABI dexHelper integrationId)
     = toLowerCase (CACHE_PREFIX k @ ''_'' @ int_toString (config_network dexHelper) @ ''_approves'')
   \<and> set (cache_keys (io_log (snd (hasAugustusAllowance k this token spender amount w))))
       = (if toLowerCase token = toLowerCase (ETHER_ADDRESS k) then set (cache_keys (io_log w))
          else insert (cacheApprovesKey this, token @ ''_'' @ spender) (set (cache_keys (io_log w))))
   \<and> (cache (snd (hasAugustusAllowance k this token spender amount w)) = cache w
      \<or> cache (snd (hasAugustusAllowance k this token spender amount w))
          = (cache w)(cacheApprovesKey this :=
                        insert (token @ ''_'' @ spender) (cache w (cacheApprovesKey this))))"
  using hasAugustusAllowance_cache_keys [of k this token spender amount w]
        hasAugustusAllowance_cache_after [of k this token spender amount w]
  by (simp add: SimpleExchange_new_def)

theorem approval_cache_keys_as_used_witness:
  "cacheApprovesKey example_exchange = ''dl_1_approves''
   \<and> set (cache_keys (io_log (snd (hasAugustusAllowance example_constants example_exchange
              ''0xTokenA'' ''0xSpender'' ''10'' example_world))))
       = {(''dl_1_approves'', ''0xTokenA_0xSpender'')}"
  using approval_cache_keys_as_used
          [of example_constants example_interface example_interface example_dexHelper
              "''UniswapV2''" example_exchange "''0xTokenA''" "''0xSpender''" "''10''" example_world]
        example_token_not_native
  by (simp add: example_cacheApprovesKey example_world_simps)

section \<open>A malformed amount: claim C9\<close>

text \<open>
  Not every string that is no decimal number is rejected by \<open>BigInt\<close>: the empty
  string and white space (the no-break space included) read as zero or are trimmed, a
  sign is allowed before decimal digits, and a hexadecimal literal is read.
\<close>

lemma BigInt_reads_blank_and_signed:
  "BigInt [] = Some 0" "BigInt ''   '' = Some 0" "BigInt ''-1'' = Some (- 1)"
  "BigInt [CHR 0xA0, CHR ''1'', CHR ''0''] = Some 10" "BigInt ''0x10'' = Some 16"
  by code_simp+

text \<open>
  C9, as the specification words it, asks that a malformed amount is rejected before any
  I/O. On the concrete exchange, the swap of the amount \<open>abc\<close> of \<open>0xTokenA\<close>
  starts from an empty log and fails with a SyntaxError only after the cache lookup and
  the chain read.
\<close>

theorem malformed_amount_counterexample:
  "\<not> isETHAddress example_constants ''0xTokenA''
   \<and> BigInt ''abc'' = None
   \<and> io_log example_world = []
   \<and> buildSimpleParamWithoutWETHConversion example_constants example_exchange ''0xTokenA'' ''abc''
       ''0xTokenB'' ''7'' ''swapdata'' ''0xRouter'' (Some ''0xSpender'') (Some ''5'')
       (Some example_preCalls) example_world
     = (Inl SyntaxError, example_world_missed)
   \<and> io_log example_world_missed
       = [CacheSIsMember ''dl_1_approves'' ''0xTokenA_0xSpender'',
          EthCall ''0xTokenA'' ''allowance:0xAugustus:0xSpender'']"
proof -
  have a: "getApproveSimpleParam example_constants example_exchange ''0xTokenA''
             (spender_or (Some ''0xSpender'') ''0xRouter'') ''abc'' example_world
           = (Inl SyntaxError, example_world_missed)"
    by (simp add: example_spender getApproveSimpleParam_error [OF example_malformed_call])
  show ?thesis
    by (simp add: example_native example_amounts example_world_simps
        buildSimpleParamWithoutWETHConversion_error [OF a] example_world_missed_def)
qed

text \<open>
  C9, as the builder does it. The amounts that are rejected are those on which
  \<open>BigInt\<close> raises its SyntaxError; the empty string, a string of white space, a
  signed decimal string and a prefixed literal are read as integers (see
  \<open>BigInt_reads_blank_and_signed\<close>) and take the paths of a numeric amount. For a
  source that is not the native asset and a source amount on which \<open>BigInt\<close> raises
  its SyntaxError, the builder never writes to the cache. It does not look at the amount
  before its I/O: on a cache miss followed by a chain read that succeeds it fails with
  the SyntaxError after the cache lookup and the chain read; on a cache hit the amount is
  never read, and the builder returns a sequence when the network fee reads as an integer.
\<close>

theorem malformed_amount_rejected_after_reads:
  assumes "\<not> isETHAddress k src" and "BigInt srcAmount = None"
  shows "cache (snd (buildSimpleParamWithoutWETHConversion k this src srcAmount dest destAmount
                       swapCallData swapCallee spender fee preCalls w)) = cache w
     \<and> cache_writes (io_log (snd (buildSimpleParamWithoutWETHConversion k this src srcAmount dest
                                    destAmount swapCallData swapCallee spender fee preCalls w)))
         = cache_writes (io_log w)
     \<and> (src @ ''_'' @ spender_or spender swapCallee \<notin> cache w (cacheApprovesKey this)
          \<and> encodeFunctionData (erc20Interface this) ''allowance''
               [augustusAddress this, spender_or spender swapCallee] = Some data
          \<and> eth w src data = Some raw
          \<and> decodeFunctionResult (erc20Interface this) ''allowance'' raw = Some allowance
        \<longrightarrow> buildSimpleParamWithoutWETHConversion k this src srcAmount dest destAmount
              swapCallData swapCallee spender fee preCalls w
            = (Inl SyntaxError,
               w\<lparr>io_log := io_log w
                    @ [CacheSIsMember (cacheApprovesKey this) (src @ ''_'' @ spender_or spender swapCallee),
                       EthCall src data]\<rparr>))
     \<and> (src @ ''_'' @ spender_or spender swapCallee \<in> cache w (cacheApprovesKey this)
          \<and> BigInt (networkFee_or_default fee) = Some F
        \<longrightarrow> (\<exists>r. buildSimpleParamWithoutWETHConversion k this src srcAmount dest destAmount
                   swapCallData swapCallee spender fee preCalls w
                 = (Inr r,
                    w\<lparr>io_log := io_log w
                         @ [CacheSIsMember (cacheApprovesKey this)
                              (src @ ''_'' @ spender_or spender swapCallee)]\<rparr>)))"
proof (intro conjI impI)
  let ?t = "spender_or spender swapCallee"
  let ?b = "buildSimpleParamWithoutWETHConversion k this src srcAmount dest destAmount
              swapCallData swapCallee spender fee preCalls w"
  have n: "toLowerCase src \<noteq> toLowerCase (ETHER_ADDRESS k)"
    using assms(1) by (simp add: isETHAddress_def)
  have w: "snd ?b = snd (hasAugustusAllowance k this src ?t srcAmount w)"
    by (simp add: buildSimpleParamWithoutWETHConversion_world getApproveSimpleParam_world)
  from hasAugustusAllowance_malformed_no_write [OF assms(2), of k this src ?t w]
  show "cache (snd ?b) = cache w" and "cache_writes (io_log (snd ?b)) = cache_writes (io_log w)"
    by (simp_all add: w)
  {
    assume m: "src @ ''_'' @ ?t \<notin> cache w (cacheApprovesKey this)
          \<and> encodeFunctionData (erc20Interface this) ''allowance'' [augustusAddress this, ?t] = Some data
          \<and> eth w src data = Some raw
          \<and> decodeFunctionResult (erc20Interface this) ''allowance'' raw = Some allowance"
    then have "hasAugustusAllowance k this src ?t srcAmount w =
           (Inl SyntaxError,
            w\<lparr>io_log := io_log w @ [CacheSIsMember (cacheApprovesKey this) (src @ ''_'' @ ?t),
                                  EthCall src data]\<rparr>)"
      using n assms(2)
      by (intro hasAugustusAllowance_malformed_miss [where raw = raw and allowance = allowance])
         simp_all
    then show "?b = (Inl SyntaxError,
               w\<lparr>io_log := io_log w
                    @ [CacheSIsMember (cacheApprovesKey this) (src @ ''_'' @ ?t), EthCall src data]\<rparr>)"
      by (intro buildSimpleParamWithoutWETHConversion_error getApproveSimpleParam_error)
  }
  {
    assume h: "src @ ''_'' @ ?t \<in> cache w (cacheApprovesKey this)
          \<and> BigInt (networkFee_or_default fee) = Some F"
    let ?w1 = "w\<lparr>io_log := io_log w @ [CacheSIsMember (cacheApprovesKey this) (src @ ''_'' @ ?t)]\<rparr>"
    from h n have "hasAugustusAllowance k this src ?t srcAmount w = (Inr True, ?w1)"
      by (intro hasAugustusAllowance_hit) simp_all
    then have a: "getApproveSimpleParam k this src ?t srcAmount w =
           (Inr \<lparr>callees = [], calldata = [], values = [], networkFee = ''0''\<rparr>, ?w1)"
      by (rule getApproveSimpleParam_sufficient)
    from h have f: "BigInt (networkFee_or_default fee) = Some F" by simp
    from assms(1) have e: "isETHAddress k src \<longrightarrow> BigInt srcAmount = Some 0" by simp
    from buildSimpleParamWithoutWETHConversion_ok [OF a f e]
    show "\<exists>r. ?b = (Inr r, ?w1)" by simp
  }
qed

theorem malformed_amount_rejected_after_reads_witness:
  "buildSimpleParamWithoutWETHConversion example_constants example_exchange ''0xTokenA'' ''abc''
     ''0xTokenB'' ''7'' ''swapdata'' ''0xRouter'' (Some ''0xSpender'') (Some ''5'')
     (Some example_preCalls) example_world
     = (Inl SyntaxError, example_world_missed)
   \<and> (\<exists>r. buildSimpleParamWithoutWETHConversion example_constants example_exchange ''0xTokenA'' ''abc''
            ''0xTokenB'' ''7'' ''swapdata'' ''0xRouter'' (Some ''0xSpender'') (Some ''5'')
            (Some example_preCalls) example_world_cached
          = (Inr r, example_world_cached
                      \<lparr>io_log := io_log example_world_cached
                         @ [CacheSIsMember ''dl_1_approves'' ''0xTokenA_0xSpender'']\<rparr>))"
proof -
  have f: "BigInt (networkFee_or_default (Some ''5'')) = Some 5"
    by (simp add: example_preCalls_simps example_strings)
  have c: "cache example_world_cached ''dl_1_approves'' = {''0xTokenA_0xSpender''}"
    "eth example_world_cached = eth example_world"
    by (simp_all add: example_world_cached_def)
  from malformed_amount_rejected_after_reads
         [OF example_native(2) example_amounts(3),
          of example_exchange "''0xTokenB''" "''7''" "''swapdata''" "''0xRouter''"
             "Some ''0xSpender''" "Some ''5''" "Some example_preCalls" example_world
             "''allowance:0xAugustus:0xSpender''" "''50''" 50 5]
  have p1: "buildSimpleParamWithoutWETHConversion example_constants example_exchange ''0xTokenA'' ''abc''
     ''0xTokenB'' ''7'' ''swapdata'' ''0xRouter'' (Some ''0xSpender'') (Some ''5'')
     (Some example_preCalls) example_world
     = (Inl SyntaxError, example_world_missed)"
    by (simp add: example_spender example_cacheApprovesKey example_augustusAddress
        example_allowance_data example_decode_50 example_world_simps example_world_missed_def)
  from malformed_amount_rejected_after_reads
         [OF example_native(2) example_amounts(3),
          of example_exchange "''0xTokenB''" "''7''" "''swapdata''" "''0xRouter''"
             "Some ''0xSpender''" "Some ''5''" "Some example_preCalls" example_world_cached
             "''allowance:0xAugustus:0xSpender''" "''50''" 50 5] f
  have p2: "\<exists>r. buildSimpleParamWithoutWETHConversion example_constants example_exchange ''0xTokenA'' ''abc''
            ''0xTokenB'' ''7'' ''swapdata'' ''0xRouter'' (Some ''0xSpender'') (Some ''5'')
            (Some example_preCalls) example_world_cached
          = (Inr r, example_world_cached
                      \<lparr>io_log := io_log example_world_cached
                         @ [CacheSIsMember ''dl_1_approves'' ''0xTokenA_0xSpender'']\<rparr>)"
    by (simp add: example_spender example_cacheApprovesKey c)
  from p1 p2 show ?thesis by simp
qed

end
